theory Spec2Isabelle
  imports Complex_Main
begin

section \<open>Python floats: IEEE 754 double precision\<close>

text \<open>
  Python exceptions are values of type \<open>error\<close>; a computation that may raise returns
  \<open>error + 'a\<close>, with \<open>Inl\<close> carrying the exception.

  A Python float is an IEEE 754 binary64 number: a finite value, an infinity or NaN. A
  finite double is carried by its exact real value; every arithmetic result is rounded to
  the nearest double, ties to the even significand (53 significant bits, exponents from
  -1022, gradual underflow, overflow to infinity). The sign of a zero is not
  represented: it changes no comparison, difference or absolute value below. A decimal
  literal of the source denotes the nearest double, \<open>to_double\<close> of its decimal value.
\<close>

datatype error = KeyError | ValueError | IndexError | TypeError | ZeroDivisionError

datatype double = Finite real | PInf | NInf | NaN

definition pow2 :: "int \<Rightarrow> real" where
  "pow2 k = (if 0 \<le> k then 2 ^ nat k else 1 / 2 ^ nat (- k))"

definition rne :: "real \<Rightarrow> int" where
  \<comment> \<open>The nearest integer, a tie going to the even one.\<close>
  "rne x = (let f = \<lfloor>x\<rfloor>; d = x - of_int f
            in if d < 1/2 then f else if d > 1/2 then f + 1
               else if even f then f else f + 1)"

definition exponent :: "real \<Rightarrow> int" where
  \<comment> \<open>The binade of a nonzero real; the subnormal range shares the exponent -1022.\<close>
  "exponent x = max \<lfloor>log 2 \<bar>x\<bar>\<rfloor> (- 1022)"

definition round_real :: "real \<Rightarrow> real" where
  \<comment> \<open>Rounding to 53 significant bits, before the overflow check.\<close>
  "round_real x =
     (if x = 0 then 0
      else of_int (rne (x / pow2 (exponent x - 52))) * pow2 (exponent x - 52))"

definition to_double :: "real \<Rightarrow> double" where
  "to_double x =
     (let v = round_real x
      in if pow2 1024 \<le> v then PInf else if v \<le> - pow2 1024 then NInf else Finite v)"

fun dsub :: "double \<Rightarrow> double \<Rightarrow> double" where
  "dsub (Finite x) (Finite y) = to_double (x - y)"
| "dsub NaN b = NaN"
| "dsub a NaN = NaN"
| "dsub PInf PInf = NaN"
| "dsub NInf NInf = NaN"
| "dsub PInf b = PInf"
| "dsub NInf b = NInf"
| "dsub a PInf = NInf"
| "dsub a NInf = PInf"

fun dmul :: "double \<Rightarrow> double \<Rightarrow> double" where
  "dmul (Finite x) (Finite y) = to_double (x * y)"
| "dmul NaN b = NaN"
| "dmul a NaN = NaN"
| "dmul (Finite x) PInf = (if x = 0 then NaN else if 0 < x then PInf else NInf)"
| "dmul (Finite x) NInf = (if x = 0 then NaN else if 0 < x then NInf else PInf)"
| "dmul PInf (Finite y) = (if y = 0 then NaN else if 0 < y then PInf else NInf)"
| "dmul NInf (Finite y) = (if y = 0 then NaN else if 0 < y then NInf else PInf)"
| "dmul PInf PInf = PInf"
| "dmul NInf NInf = PInf"
| "dmul PInf NInf = NInf"
| "dmul NInf PInf = NInf"

fun ddiv :: "double \<Rightarrow> double \<Rightarrow> double" where
  \<comment> \<open>A zero divisor counts as positive; no use below divides by zero.\<close>
  "ddiv (Finite x) (Finite y) =
     (if y = 0 then (if x = 0 then NaN else if 0 < x then PInf else NInf)
      else to_double (x / y))"
| "ddiv NaN b = NaN"
| "ddiv a NaN = NaN"
| "ddiv (Finite x) b = Finite 0"
| "ddiv PInf (Finite y) = (if 0 \<le> y then PInf else NInf)"
| "ddiv NInf (Finite y) = (if 0 \<le> y then NInf else PInf)"
| "ddiv a b = NaN"

definition truediv :: "double \<Rightarrow> double \<Rightarrow> error + double" where
  \<comment> \<open>\<open>a / b\<close> on Python floats: a zero divisor raises.\<close>
  "truediv a b = (if b = Finite 0 then Inl ZeroDivisionError else Inr (ddiv a b))"

fun dabs :: "double \<Rightarrow> double" where
  "dabs (Finite x) = Finite \<bar>x\<bar>"
| "dabs PInf = PInf"
| "dabs NInf = PInf"
| "dabs NaN = NaN"

fun dlt :: "double \<Rightarrow> double \<Rightarrow> bool" where
  \<comment> \<open>\<open>a < b\<close>; every comparison with NaN is false.\<close>
  "dlt (Finite x) (Finite y) = (x < y)"
| "dlt NaN b = False"
| "dlt a NaN = False"
| "dlt a NInf = False"
| "dlt PInf b = False"
| "dlt a PInf = True"
| "dlt NInf b = True"

definition dgt :: "double \<Rightarrow> double \<Rightarrow> bool" where
  "dgt a b = dlt b a"

section \<open>Overfitting classifier (scripts/evaluate_models.py)\<close>

text \<open>Status and severity labels are the strings of the source.\<close>

type_synonym metrics = "string \<rightharpoonup> double"

definition getitem :: "(string \<rightharpoonup> 'v) \<Rightarrow> string \<Rightarrow> error + 'v" where
  \<comment> \<open>\<open>d[k]\<close> on a dict: a missing key raises KeyError.\<close>
  "getitem d k = (case d k of None \<Rightarrow> Inl KeyError | Some v \<Rightarrow> Inr v)"

definition get_recommendation :: "string \<Rightarrow> string" where
  "get_recommendation status =
     (if status = ''OVERFITTING'' then
        ''Consider: 1) Regularization, 2) More training data, 3) Reduce model complexity, 4) Cross-validation''
      else if status = ''UNDERFITTING'' then
        ''Consider: 1) More complex model, 2) More features, 3) Feature engineering, 4) Remove regularization''
      else if status = ''GOOD_FIT'' then
        ''Model is performing well! Continue monitoring.''
      else ''No specific recommendation'')"

record fit_verdict =
  fit_status :: string
  fit_severity :: string
  accuracy_gap :: double
  f1_gap :: double
  fit_recommendation :: string

definition classify_fit :: "double \<Rightarrow> double \<Rightarrow> double \<Rightarrow> double \<Rightarrow> string \<times> string" where
  \<comment> \<open>The \<open>if / elif / else\<close> chain of \<open>detect_overfitting\<close>: (status, severity).\<close>
  "classify_fit acc_gap f_gap test_accuracy threshold =
     (if dgt acc_gap threshold \<or> dgt f_gap threshold then
        (''OVERFITTING'', if dgt acc_gap (to_double 0.15) then ''HIGH'' else ''MEDIUM'')
      else if dlt test_accuracy (to_double 0.60) then
        (''UNDERFITTING'', if dlt test_accuracy (to_double 0.50) then ''HIGH'' else ''MEDIUM'')
      else (''GOOD_FIT'', ''NONE''))"

definition detect_overfitting :: "metrics \<Rightarrow> metrics \<Rightarrow> double \<Rightarrow> error + fit_verdict" where
  \<comment> \<open>The default of \<open>threshold\<close> is the literal 0.10.\<close>
  "detect_overfitting train_metrics test_metrics threshold =
     (case getitem train_metrics ''accuracy'' of Inl e \<Rightarrow> Inl e | Inr train_acc \<Rightarrow>
     (case getitem test_metrics ''accuracy'' of Inl e \<Rightarrow> Inl e | Inr test_acc \<Rightarrow>
     (case getitem train_metrics ''f1'' of Inl e \<Rightarrow> Inl e | Inr train_f1 \<Rightarrow>
     (case getitem test_metrics ''f1'' of Inl e \<Rightarrow> Inl e | Inr test_f1 \<Rightarrow>
        (let acc_gap = dsub train_acc test_acc;
             f_gap = dsub train_f1 test_f1;
             (status, severity) = classify_fit acc_gap f_gap test_acc threshold
         in Inr \<lparr>fit_status = status, fit_severity = severity,
                  accuracy_gap = acc_gap, f1_gap = f_gap,
                  fit_recommendation = get_recommendation status\<rparr>)))))"


section \<open>Data frames and the numpy / pandas primitives (scripts/check_model_drift.py)\<close>

text \<open>
  A pandas column is either of numeric dtype, holding real numbers, or of a non-numeric
  (object) dtype, holding text. Samples are sequences of real numbers without missing
  entries, so \<open>dropna\<close> is the identity. The population stability index and the
  column statistics are computed over the reals; the threshold verdicts on metrics, label
  shares, p-values and accuracies are computed in double precision. A data frame is the list of its named columns
  in column order; column labels are taken to be distinct, as in a frame read from a CSV
  file. The results of \<open>mean\<close> and \<open>std\<close> may be the float NaN.
\<close>

datatype column = Numeric "real list" | NonNumeric "string list"

datatype cell = Num real | Str string

datatype fval = NaN | Fin real

type_synonym dataframe = "(string \<times> column) list"

definition columns :: "dataframe \<Rightarrow> string list" where
  "columns df = map fst df"

definition getcol :: "dataframe \<Rightarrow> string \<Rightarrow> error + column" where
  \<comment> \<open>\<open>df[col]\<close>: a missing label raises KeyError.\<close>
  "getcol df col = (case map_of df col of None \<Rightarrow> Inl KeyError | Some c \<Rightarrow> Inr c)"

fun is_numeric_dtype :: "column \<Rightarrow> bool" where
  "is_numeric_dtype (Numeric xs) = True"
| "is_numeric_dtype (NonNumeric ss) = False"

fun len :: "column \<Rightarrow> nat" where
  "len (Numeric xs) = length xs"
| "len (NonNumeric ss) = length ss"


definition mean_list :: "real list \<Rightarrow> real" where
  "mean_list xs = sum_list xs / real (length xs)"

fun mean :: "column \<Rightarrow> error + fval" where
  \<comment> \<open>\<open>Series.mean()\<close>: NaN on an empty column, TypeError on text.\<close>
  "mean (Numeric xs) = Inr (if xs = [] then NaN else Fin (mean_list xs))"
| "mean (NonNumeric ss) = (if ss = [] then Inr NaN else Inl TypeError)"

fun std :: "column \<Rightarrow> error + fval" where
  \<comment> \<open>\<open>Series.std()\<close>: the sample standard deviation (one degree of freedom removed).\<close>
  "std (Numeric xs) =
     Inr (if length xs < 2 then NaN
          else Fin (sqrt (sum_list (map (\<lambda>x. (x - mean_list xs)\<^sup>2) xs) / real (length xs - 1))))"
| "std (NonNumeric ss) = (if ss = [] then Inr NaN else Inl TypeError)"

definition linspace :: "real \<Rightarrow> real \<Rightarrow> int \<Rightarrow> error + real list" where
  \<comment> \<open>\<open>np.linspace(start, stop, num)\<close>, end point included.\<close>
  "linspace start stop num =
     (if num < 0 then Inl ValueError
      else if num = 0 then Inr []
      else if num = 1 then Inr [start]
      else Inr (map (\<lambda>i. start + real i * ((stop - start) / real_of_int (num - 1)))
                    [0 ..< nat num]))"

definition percentile_at :: "real list \<Rightarrow> real \<Rightarrow> real" where
  \<comment> \<open>Linear interpolation between the two order statistics around the position
      \<open>q / 100 * (n - 1)\<close> of a sorted, non-empty sample.\<close>
  "percentile_at arr q =
     (let n = length arr;
          pos = q / 100 * real (n - 1);
          lo = nat \<lfloor>pos\<rfloor>;
          hi = min (lo + 1) (n - 1);
          gamma = pos - real lo
      in arr ! lo + gamma * (arr ! hi - arr ! lo))"

definition percentile :: "column \<Rightarrow> real list \<Rightarrow> error + real list" where
  \<comment> \<open>\<open>np.percentile(a, q)\<close> with the default linear method.\<close>
  "percentile a qs =
     (case a of
        NonNumeric ss \<Rightarrow> Inl TypeError
      | Numeric xs \<Rightarrow>
          if \<not> list_all (\<lambda>q. 0 \<le> q \<and> q \<le> 100) qs then Inl ValueError
          else if xs = [] then Inl IndexError
          else Inr (map (percentile_at (sort xs)) qs))"

definition unique :: "real list \<Rightarrow> real list" where
  \<comment> \<open>\<open>np.unique\<close>: the distinct values in increasing order.\<close>
  "unique xs = sort (remdups xs)"

fun bin_counts :: "real list \<Rightarrow> real list \<Rightarrow> nat list" where
  \<comment> \<open>Every bin is half open, \<open>[a, b)\<close>, except the last one, \<open>[a, b]\<close>.\<close>
  "bin_counts xs (a # b # []) = [length (filter (\<lambda>x. a \<le> x \<and> x \<le> b) xs)]"
| "bin_counts xs (a # b # edges) =
     length (filter (\<lambda>x. a \<le> x \<and> x < b) xs) # bin_counts xs (b # edges)"
| "bin_counts xs edges = []"

definition histogram :: "column \<Rightarrow> real list \<Rightarrow> error + nat list" where
  \<comment> \<open>\<open>np.histogram(a, bins=edges)\<close> for increasing edges; it is only called with at
      least three of them.\<close>
  "histogram a edges =
     (case a of NonNumeric ss \<Rightarrow> Inl TypeError | Numeric xs \<Rightarrow> Inr (bin_counts xs edges))"

section \<open>Population stability index\<close>

definition proportions :: "nat list \<Rightarrow> nat \<Rightarrow> int \<Rightarrow> real list" where
  \<comment> \<open>\<open>(counts + epsilon) / (n + epsilon * bins)\<close> with \<open>epsilon = 0.0001\<close>.\<close>
  "proportions counts n bins =
     map (\<lambda>c. (real c + 0.0001) / (real n + 0.0001 * real_of_int bins)) counts"

definition psi_sum :: "real list \<Rightarrow> real list \<Rightarrow> real" where
  "psi_sum curr_props ref_props =
     sum_list (map (\<lambda>(c, r). (c - r) * ln (c / r)) (zip curr_props ref_props))"

definition breakpoints :: "column \<Rightarrow> int \<Rightarrow> error + real list" where
  \<comment> \<open>The \<open>bins + 1\<close> percentiles of the reference sample, deduplicated.\<close>
  "breakpoints reference bins =
     (case linspace 0 100 (bins + 1) of Inl e \<Rightarrow> Inl e | Inr qs \<Rightarrow>
     (case percentile reference qs of Inl e \<Rightarrow> Inl e | Inr ps \<Rightarrow> Inr (unique ps)))"

definition calculate_psi_try :: "column \<Rightarrow> column \<Rightarrow> int \<Rightarrow> error + real" where
  \<comment> \<open>The body of the \<open>try\<close> block of \<open>calculate_psi\<close>.\<close>
  "calculate_psi_try reference current bins =
     (case breakpoints reference bins of Inl e \<Rightarrow> Inl e | Inr bps \<Rightarrow>
        if length bps < 3 then Inr 0
        else
         (case histogram reference bps of Inl e \<Rightarrow> Inl e | Inr ref_counts \<Rightarrow>
         (case histogram current bps of Inl e \<Rightarrow> Inl e | Inr curr_counts \<Rightarrow>
            Inr (psi_sum (proportions curr_counts (len current) bins)
                         (proportions ref_counts (len reference) bins)))))"

definition calculate_psi :: "column \<Rightarrow> column \<Rightarrow> int \<Rightarrow> real" where
  \<comment> \<open>\<open>except Exception: return 0.0\<close>.\<close>
  "calculate_psi reference current bins =
     (case calculate_psi_try reference current bins of Inl e \<Rightarrow> 0 | Inr psi \<Rightarrow> psi)"


section \<open>Feature, statistical and target drift detectors\<close>

text \<open>
  The detectors read the cached reference frame, passed here as an argument. The
  \<open>timestamp\<close> entries (the clock) and the log messages are left out of the results.
  A Python dict that is filled in a loop is an association list in insertion order.
\<close>

fun dict_set :: "'k \<Rightarrow> 'v \<Rightarrow> ('k \<times> 'v) list \<Rightarrow> ('k \<times> 'v) list" where
  \<comment> \<open>\<open>d[k] = v\<close>: an existing key keeps its place.\<close>
  "dict_set k v [] = [(k, v)]"
| "dict_set k v ((k', v') # d) = (if k = k' then (k, v) # d else (k', v') # dict_set k v d)"

definition target_col :: string where
  "target_col = ''migraine_occurrence''"

definition common_cols :: "dataframe \<Rightarrow> dataframe \<Rightarrow> string list" where
  "common_cols reference current_data =
     filter (\<lambda>col. col \<in> set (columns reference) \<and> col \<noteq> target_col) (columns current_data)"

record feature_verdict =
  psi :: real
  feature_status :: string
  ref_mean :: fval
  curr_mean :: fval
  ref_std :: fval
  curr_std :: fval

record feature_summary =
  total_features :: nat
  drifted_features :: nat
  drifted_feature_names :: "string list"
  drift_percentage :: real
  overall_status :: string

record feature_result =
  fd_results :: "(string \<times> feature_verdict) list"
  fd_summary :: feature_summary

fun feature_loop ::
  "dataframe \<Rightarrow> dataframe \<Rightarrow> real \<Rightarrow> string list \<Rightarrow>
   (string \<times> feature_verdict) list \<Rightarrow> string list \<Rightarrow>
   error + ((string \<times> feature_verdict) list \<times> string list)" where
  "feature_loop reference current_data threshold [] drift_results drifted = Inr (drift_results, drifted)"
| "feature_loop reference current_data threshold (col # cols) drift_results drifted =
     (case getcol current_data col of Inl e \<Rightarrow> Inl e | Inr cur \<Rightarrow>
       if \<not> is_numeric_dtype cur then
         feature_loop reference current_data threshold cols drift_results drifted
       else
        (case getcol reference col of Inl e \<Rightarrow> Inl e | Inr ref \<Rightarrow>
          (let p = calculate_psi ref cur 10;
               status = (if p \<ge> threshold then ''SIGNIFICANT_DRIFT''
                         else if p \<ge> 0.1 then ''MODERATE_DRIFT'' else ''NO_DRIFT'');
               drifted' = (if p \<ge> threshold then drifted @ [col] else drifted)
           in
           (case mean ref of Inl e \<Rightarrow> Inl e | Inr rm \<Rightarrow>
           (case mean cur of Inl e \<Rightarrow> Inl e | Inr cm \<Rightarrow>
           (case std ref of Inl e \<Rightarrow> Inl e | Inr rs \<Rightarrow>
           (case std cur of Inl e \<Rightarrow> Inl e | Inr cs \<Rightarrow>
              feature_loop reference current_data threshold cols
                (dict_set col \<lparr>psi = p, feature_status = status, ref_mean = rm,
                                 curr_mean = cm, ref_std = rs, curr_std = cs\<rparr> drift_results)
                drifted')))))))"

definition detect_feature_drift :: "dataframe \<Rightarrow> dataframe \<Rightarrow> real \<Rightarrow> error + feature_result" where
  "detect_feature_drift reference current_data threshold =
     (case feature_loop reference current_data threshold
             (common_cols reference current_data) [] [] of
        Inl e \<Rightarrow> Inl e
      | Inr (drift_results, drifted) \<Rightarrow>
          Inr \<lparr>fd_results = drift_results,
               fd_summary =
                 \<lparr>total_features = length drift_results,
                  drifted_features = length drifted,
                  drifted_feature_names = drifted,
                  drift_percentage =
                    (if drift_results \<noteq> []
                     then real (length drifted) / real (length drift_results) * 100 else 0),
                  overall_status = (if drifted \<noteq> [] then ''DRIFT_DETECTED'' else ''NO_DRIFT'')\<rparr>\<rparr>)"







fun cells :: "column \<Rightarrow> cell list" where
  "cells (Numeric xs) = map Num xs"
| "cells (NonNumeric ss) = map Str ss"

definition value_counts_normalize :: "column \<Rightarrow> (cell \<rightharpoonup> double)" where
  \<comment> \<open>\<open>value_counts(normalize=True).to_dict()\<close>: each value that occurs, with its count
      divided by the number of rows, both converted to doubles.\<close>
  "value_counts_normalize c =
     (\<lambda>v. if v \<in> set (cells c)
          then Some (ddiv (to_double (real (count_list (cells c) v))) (to_double (real (len c))))
          else None)"

definition dict_get :: "('k \<rightharpoonup> 'v) \<Rightarrow> 'k \<Rightarrow> 'v \<Rightarrow> 'v" where
  \<comment> \<open>\<open>d.get(k, default)\<close>.\<close>
  "dict_get d k dflt = (case d k of None \<Rightarrow> dflt | Some v \<Rightarrow> v)"

record target_result =
  reference_distribution :: "cell \<rightharpoonup> double"
  current_distribution :: "cell \<rightharpoonup> double"
  drift_magnitude :: double
  target_status :: string

definition detect_target_drift :: "dataframe \<Rightarrow> dataframe \<Rightarrow> error + target_result option" where
  \<comment> \<open>\<open>None\<close> is the empty dict \<open>{}\<close> returned when the label column is missing.\<close>
  "detect_target_drift reference current_data =
     (if target_col \<notin> set (columns current_data) \<or> target_col \<notin> set (columns reference)
      then Inr None
      else
       (case getcol reference target_col of Inl e \<Rightarrow> Inl e | Inr ref \<Rightarrow>
       (case getcol current_data target_col of Inl e \<Rightarrow> Inl e | Inr cur \<Rightarrow>
         (let ref_dist = value_counts_normalize ref;
              curr_dist = value_counts_normalize cur;
              magnitude = dabs (dsub (dict_get ref_dist (Num 1) (Finite 0))
                                     (dict_get curr_dist (Num 1) (Finite 0)));
              status = (if dgt magnitude (to_double 0.1)
                        then ''SIGNIFICANT_DRIFT'' else ''NO_DRIFT'')
          in Inr (Some \<lparr>reference_distribution = ref_dist, current_distribution = curr_dist,
                         drift_magnitude = magnitude, target_status = status\<rparr>)))))"

section \<open>Performance drift and the comprehensive report\<close>

record performance_result =
  baseline_accuracy :: double
  current_accuracy :: double
  current_f1 :: double
  accuracy_drop :: double
  performance_degradation_pct :: double
  performance_status :: string

type_synonym classifier = "dataframe \<Rightarrow> error + real list"

type_synonym scorer = "column \<Rightarrow> real list \<Rightarrow> error + double"

definition detect_model_performance_drift ::
  "scorer \<Rightarrow> scorer \<Rightarrow> classifier \<Rightarrow> dataframe \<Rightarrow> column \<Rightarrow> double \<Rightarrow> error + performance_result" where
  \<comment> \<open>The model's \<open>predict\<close> and the two scikit-learn scores are parameters.\<close>
  "detect_model_performance_drift accuracy_score f1_score predict current_data current_labels baseline =
     (case predict current_data of Inl e \<Rightarrow> Inl e | Inr predictions \<Rightarrow>
     (case accuracy_score current_labels predictions of Inl e \<Rightarrow> Inl e | Inr cur_accuracy \<Rightarrow>
     (case f1_score current_labels predictions of Inl e \<Rightarrow> Inl e | Inr cur_f1 \<Rightarrow>
       (let acc_drop = dsub baseline cur_accuracy in
        (case truediv acc_drop baseline of Inl e \<Rightarrow> Inl e | Inr ratio \<Rightarrow>
          (let performance_degradation = dmul ratio (Finite 100);
               status = (if dgt performance_degradation (Finite 10) then ''SIGNIFICANT_DEGRADATION''
                         else if dgt performance_degradation (Finite 5) then ''MODERATE_DEGRADATION''
                         else ''NO_DEGRADATION'')
           in Inr \<lparr>baseline_accuracy = baseline, current_accuracy = cur_accuracy,
                    current_f1 = cur_f1, accuracy_drop = acc_drop,
                    performance_degradation_pct = performance_degradation,
                    performance_status = status\<rparr>))))))"













section \<open>Evaluating double-precision arithmetic\<close>

text \<open>
  Inside a binade \<open>[2^e, 2^(e+1))\<close> the doubles are the multiples of \<open>2^(e-52)\<close>, so
  a concrete rounding is decided by exact rational arithmetic.
\<close>

lemma pow2_powr: "pow2 k = 2 powr real_of_int k"
  by (simp add: pow2_def powr_real_of_int divide_inverse)

lemma exponent_eval:
  assumes "pow2 e \<le> \<bar>x\<bar>" and "\<bar>x\<bar> < pow2 (e + 1)" and "- 1022 \<le> e"
  shows "exponent x = e"
proof -
  have "0 < pow2 e" by (simp add: pow2_powr)
  with assms(1) have "0 < \<bar>x\<bar>" by linarith
  then have "\<lfloor>log 2 \<bar>x\<bar>\<rfloor> = e"
    using assms(1,2) by (simp add: floor_log_eq_powr_iff pow2_powr)
  with assms(3) show ?thesis by (simp add: exponent_def)
qed

lemma to_double_eval:
  assumes "pow2 e \<le> \<bar>x\<bar>" and "\<bar>x\<bar> < pow2 (e + 1)" and "- 1022 \<le> e"
    and "of_int (rne (x / pow2 (e - 52))) * pow2 (e - 52) = v"
    and "\<bar>v\<bar> < pow2 1024"
  shows "to_double x = Finite v"
proof -
  have "0 < pow2 e" by (simp add: pow2_powr)
  with assms(1) have "x \<noteq> 0" by auto
  then have "round_real x = v"
    using assms(4) by (simp add: round_real_def exponent_eval[OF assms(1-3)])
  with assms(5) show ?thesis by (auto simp: to_double_def Let_def)
qed

lemma to_double_zero: "to_double 0 = Finite 0"
  by (simp add: to_double_def round_real_def pow2_def)

lemma lit_010: "to_double 0.10 = Finite (7205759403792794 / 2 ^ 56)"
  by (rule to_double_eval[of "-4"]) (simp_all add: pow2_def rne_def Let_def)

lemma lit_01: "to_double 0.1 = Finite (7205759403792794 / 2 ^ 56)"
  by (rule to_double_eval[of "-4"]) (simp_all add: pow2_def rne_def Let_def)

lemma lit_015: "to_double 0.15 = Finite (5404319552844595 / 2 ^ 55)"
  by (rule to_double_eval[of "-3"]) (simp_all add: pow2_def rne_def Let_def)

lemma lit_095: "to_double 0.95 = Finite (8556839292003942 / 2 ^ 53)"
  by (rule to_double_eval[of "-1"]) (simp_all add: pow2_def rne_def Let_def)

lemma lit_080: "to_double 0.80 = Finite (7205759403792794 / 2 ^ 53)"
  by (rule to_double_eval[of "-1"]) (simp_all add: pow2_def rne_def Let_def)

lemma lit_075: "to_double 0.75 = Finite (6755399441055744 / 2 ^ 53)"
  by (rule to_double_eval[of "-1"]) (simp_all add: pow2_def rne_def Let_def)

lemma lit_060: "to_double 0.60 = Finite (5404319552844595 / 2 ^ 53)"
  by (rule to_double_eval[of "-1"]) (simp_all add: pow2_def rne_def Let_def)

lemma lit_070: "to_double 0.70 = Finite (6305039478318694 / 2 ^ 53)"
  by (rule to_double_eval[of "-1"]) (simp_all add: pow2_def rne_def Let_def)

lemma lit_055: "to_double 0.55 = Finite (4953959590107546 / 2 ^ 53)"
  by (rule to_double_eval[of "-1"]) (simp_all add: pow2_def rne_def Let_def)

lemma lit_045: "to_double 0.45 = Finite (8106479329266893 / 2 ^ 54)"
  by (rule to_double_eval[of "-2"]) (simp_all add: pow2_def rne_def Let_def)

lemma lit_090: "to_double 0.90 = Finite (8106479329266893 / 2 ^ 53)"
  by (rule to_double_eval[of "-1"]) (simp_all add: pow2_def rne_def Let_def)

lemma lit_050: "to_double 0.50 = Finite (4503599627370496 / 2 ^ 53)"
  by (rule to_double_eval[of "-1"]) (simp_all add: pow2_def rne_def Let_def)

lemma lit_072: "to_double 0.72 = Finite (6485183463413514 / 2 ^ 53)"
  by (rule to_double_eval[of "-1"]) (simp_all add: pow2_def rne_def Let_def)

lemma int_3: "to_double 3 = Finite 3"
  by (rule to_double_eval[of 1]) (simp_all add: pow2_def rne_def Let_def)

lemma int_9: "to_double 9 = Finite 9"
  by (rule to_double_eval[of 3]) (simp_all add: pow2_def rne_def Let_def)

lemma int_10: "to_double 10 = Finite 10"
  by (rule to_double_eval[of 3]) (simp_all add: pow2_def rne_def Let_def)

lemma int_20: "to_double 20 = Finite 20"
  by (rule to_double_eval[of 4]) (simp_all add: pow2_def rne_def Let_def)




lemma int_4: "to_double 4 = Finite 4"
  by (rule to_double_eval[of 2]) (simp_all add: pow2_def rne_def Let_def)



lemma gap_095_080:
  "dsub (to_double 0.95) (to_double 0.80) = Finite (5404319552844592 / 2 ^ 55)"
proof -
  have "dsub (to_double 0.95) (to_double 0.80)
      = to_double (8556839292003942 / 2 ^ 53 - 7205759403792794 / 2 ^ 53)"
    by (simp only: lit_095 lit_080 dsub.simps)
  also have "\<dots> = Finite (5404319552844592 / 2 ^ 55)"
    by (rule to_double_eval[of "-3"]) (simp_all add: pow2_def rne_def Let_def)
  finally show ?thesis .
qed

lemma gap_075_060:
  "dsub (to_double 0.75) (to_double 0.60) = Finite (5404319552844596 / 2 ^ 55)"
proof -
  have "dsub (to_double 0.75) (to_double 0.60)
      = to_double (6755399441055744 / 2 ^ 53 - 5404319552844595 / 2 ^ 53)"
    by (simp only: lit_075 lit_060 dsub.simps)
  also have "\<dots> = Finite (5404319552844596 / 2 ^ 55)"
    by (rule to_double_eval[of "-3"]) (simp_all add: pow2_def rne_def Let_def)
  finally show ?thesis .
qed

lemma gap_080_070:
  "dsub (to_double 0.80) (to_double 0.70) = Finite (7205759403792800 / 2 ^ 56)"
proof -
  have "dsub (to_double 0.80) (to_double 0.70)
      = to_double (7205759403792794 / 2 ^ 53 - 6305039478318694 / 2 ^ 53)"
    by (simp only: lit_080 lit_070 dsub.simps)
  also have "\<dots> = Finite (7205759403792800 / 2 ^ 56)"
    by (rule to_double_eval[of "-4"]) (simp_all add: pow2_def rne_def Let_def)
  finally show ?thesis .
qed

lemma gap_055_045:
  "dsub (to_double 0.55) (to_double 0.45) = Finite (7205759403792796 / 2 ^ 56)"
proof -
  have "dsub (to_double 0.55) (to_double 0.45)
      = to_double (4953959590107546 / 2 ^ 53 - 8106479329266893 / 2 ^ 54)"
    by (simp only: lit_055 lit_045 dsub.simps)
  also have "\<dots> = Finite (7205759403792796 / 2 ^ 56)"
    by (rule to_double_eval[of "-4"]) (simp_all add: pow2_def rne_def Let_def)
  finally show ?thesis .
qed

lemma gap_090_070:
  "dsub (to_double 0.90) (to_double 0.70) = Finite (7205759403792796 / 2 ^ 55)"
proof -
  have "dsub (to_double 0.90) (to_double 0.70)
      = to_double (8106479329266893 / 2 ^ 53 - 6305039478318694 / 2 ^ 53)"
    by (simp only: lit_090 lit_070 dsub.simps)
  also have "\<dots> = Finite (7205759403792796 / 2 ^ 55)"
    by (rule to_double_eval[of "-3"]) (simp_all add: pow2_def rne_def Let_def)
  finally show ?thesis .
qed

lemma gap_070_055:
  "dsub (to_double 0.70) (to_double 0.55) = Finite (5404319552844592 / 2 ^ 55)"
proof -
  have "dsub (to_double 0.70) (to_double 0.55)
      = to_double (6305039478318694 / 2 ^ 53 - 4953959590107546 / 2 ^ 53)"
    by (simp only: lit_070 lit_055 dsub.simps)
  also have "\<dots> = Finite (5404319552844592 / 2 ^ 55)"
    by (rule to_double_eval[of "-3"]) (simp_all add: pow2_def rne_def Let_def)
  finally show ?thesis .
qed

lemma dsub_same: "dsub (Finite x) (Finite x) = Finite 0"
  by (simp add: to_double_zero)

section \<open>Properties of the overfitting classifier\<close>

lemma detect_overfitting_defined:
  assumes "train_metrics ''accuracy'' = Some ta" and "test_metrics ''accuracy'' = Some ea"
    and "train_metrics ''f1'' = Some tf" and "test_metrics ''f1'' = Some ef"
  shows "detect_overfitting train_metrics test_metrics th =
     Inr \<lparr>fit_status = fst (classify_fit (dsub ta ea) (dsub tf ef) ea th),
          fit_severity = snd (classify_fit (dsub ta ea) (dsub tf ef) ea th),
          accuracy_gap = dsub ta ea, f1_gap = dsub tf ef,
          fit_recommendation =
            get_recommendation (fst (classify_fit (dsub ta ea) (dsub tf ef) ea th))\<rparr>"
  using assms by (simp add: detect_overfitting_def getitem_def Let_def split: prod.splits)

text \<open>
  Rounding decides verdicts at the thresholds. The doubles 0.75 and 0.60 differ by
  0.15000000000000002, above the double 0.15, so that pair is HIGH; 0.80 and 0.70 differ
  by 0.10000000000000009 and 0.55 and 0.45 by 0.10000000000000003, both above the double
  0.10, so these pairs are OVERFITTING.
\<close>

lemma classify_fit_rounding_examples:
  "classify_fit (dsub (to_double 0.75) (to_double 0.60)) (Finite 0) (to_double 0.60) (to_double 0.10)
     = (''OVERFITTING'', ''HIGH'')"
  "classify_fit (dsub (to_double 0.80) (to_double 0.70)) (Finite 0) (to_double 0.70) (to_double 0.10)
     = (''OVERFITTING'', ''MEDIUM'')"
  "classify_fit (dsub (to_double 0.55) (to_double 0.45)) (Finite 0) (to_double 0.45) (to_double 0.10)
     = (''OVERFITTING'', ''MEDIUM'')"
  unfolding classify_fit_def
  by (simp_all only: gap_075_060 gap_080_070 gap_055_045 lit_010 lit_015 dgt_def dlt.simps)
     simp_all

text \<open>
  C1, as stated, reads the severity off "the gap" that exceeded the threshold. The code
  reads it off the accuracy gap alone: with equal train and test accuracy 0.80, train f1
  0.90 and test f1 0.70, the f1 gap is 0.20000000000000007, the status is OVERFITTING, the
  gap that triggered it is above 0.15, and the severity is MEDIUM, not HIGH.
\<close>

theorem detect_overfitting_f1_gap_counterexample:
  "detect_overfitting (map_of [(''accuracy'', to_double 0.80), (''f1'', to_double 0.90)])
      (map_of [(''accuracy'', to_double 0.80), (''f1'', to_double 0.70)]) (to_double 0.10)
   = Inr \<lparr>fit_status = ''OVERFITTING'', fit_severity = ''MEDIUM'',
          accuracy_gap = Finite 0, f1_gap = Finite (7205759403792796 / 2 ^ 55),
          fit_recommendation = get_recommendation ''OVERFITTING''\<rparr>
   \<and> dgt (Finite (7205759403792796 / 2 ^ 55)) (to_double 0.15)"
proof -
  have a: "dsub (to_double 0.80) (to_double 0.80) = Finite 0"
    by (simp only: lit_080 dsub_same)
  have c: "classify_fit (Finite 0) (Finite (7205759403792796 / 2 ^ 55)) (to_double 0.80)
             (to_double 0.10) = (''OVERFITTING'', ''MEDIUM'')"
    unfolding classify_fit_def by (simp only: lit_010 lit_015 dgt_def dlt.simps) simp
  have h: "dgt (Finite (7205759403792796 / 2 ^ 55)) (to_double 0.15)"
    by (simp only: lit_015 dgt_def dlt.simps) simp
  have "detect_overfitting (map_of [(''accuracy'', to_double 0.80), (''f1'', to_double 0.90)])
      (map_of [(''accuracy'', to_double 0.80), (''f1'', to_double 0.70)]) (to_double 0.10)
   = Inr \<lparr>fit_status = ''OVERFITTING'', fit_severity = ''MEDIUM'',
          accuracy_gap = Finite 0, f1_gap = Finite (7205759403792796 / 2 ^ 55),
          fit_recommendation = get_recommendation ''OVERFITTING''\<rparr>"
    by (subst detect_overfitting_defined[of _ "to_double 0.80" _ "to_double 0.80"
          "to_double 0.90" "to_double 0.70"])
       (simp_all only: a gap_090_070 c fst_conv snd_conv, simp_all)
  from this h show ?thesis by (rule conjI)
qed

text \<open>
  C1 (amended): for train and test metric dictionaries holding \<open>accuracy\<close> and \<open>f1\<close>,
  \<open>detect_overfitting\<close> with the default threshold 0.10 returns the two gaps, each the
  double-precision difference \<open>train - test\<close>; the status is OVERFITTING exactly when
  the computed accuracy gap or the computed f1 gap is greater than the double 0.10; the
  severity is then HIGH if the computed accuracy gap is strictly greater than the double
  0.15 and MEDIUM otherwise, whatever the f1 gap. A computed accuracy gap equal to the
  double 0.15 gives OVERFITTING with severity MEDIUM, and so do train accuracy 0.95 and
  test accuracy 0.80, whose computed gap is 0.1499999999999999.
\<close>

theorem detect_overfitting_status_severity:
  assumes "train_metrics ''accuracy'' = Some ta" and "test_metrics ''accuracy'' = Some ea"
    and "train_metrics ''f1'' = Some tf" and "test_metrics ''f1'' = Some ef"
  shows "\<exists>v. detect_overfitting train_metrics test_metrics (to_double 0.10) = Inr v
     \<and> accuracy_gap v = dsub ta ea \<and> f1_gap v = dsub tf ef
     \<and> (fit_status v = ''OVERFITTING'' \<longleftrightarrow>
          dgt (accuracy_gap v) (to_double 0.10) \<or> dgt (f1_gap v) (to_double 0.10))
     \<and> (fit_status v = ''OVERFITTING'' \<longrightarrow>
          fit_severity v = (if dgt (accuracy_gap v) (to_double 0.15) then ''HIGH'' else ''MEDIUM''))
     \<and> (accuracy_gap v = to_double 0.15 \<longrightarrow>
          fit_status v = ''OVERFITTING'' \<and> fit_severity v = ''MEDIUM'')
     \<and> (ta = to_double 0.95 \<and> ea = to_double 0.80 \<longrightarrow>
          accuracy_gap v = Finite (5404319552844592 / 2 ^ 55)
          \<and> fit_status v = ''OVERFITTING'' \<and> fit_severity v = ''MEDIUM'')"
proof -
  have b: "dgt (to_double 0.15) (to_double 0.10)" "\<not> dgt (to_double 0.15) (to_double 0.15)"
    by (simp_all only: lit_010 lit_015 dgt_def dlt.simps) simp_all
  have e: "dgt (dsub (to_double 0.95) (to_double 0.80)) (to_double 0.10)"
    "\<not> dgt (dsub (to_double 0.95) (to_double 0.80)) (to_double 0.15)"
    by (simp_all only: gap_095_080 lit_010 lit_015 dgt_def dlt.simps) simp_all
  show ?thesis
    unfolding detect_overfitting_defined[OF assms]
    using b e gap_095_080 by (auto simp: classify_fit_def)
qed

theorem detect_overfitting_status_severity_witness:
  "\<exists>v. detect_overfitting
          (map_of [(''accuracy'', to_double 0.95), (''f1'', to_double 0.90)])
          (map_of [(''accuracy'', to_double 0.80), (''f1'', to_double 0.70)]) (to_double 0.10) = Inr v
     \<and> accuracy_gap v = Finite (5404319552844592 / 2 ^ 55)
     \<and> fit_status v = ''OVERFITTING'' \<and> fit_severity v = ''MEDIUM''"
  using detect_overfitting_status_severity
    [of "map_of [(''accuracy'', to_double 0.95), (''f1'', to_double 0.90)]" "to_double 0.95"
        "map_of [(''accuracy'', to_double 0.80), (''f1'', to_double 0.70)]" "to_double 0.80"
        "to_double 0.90" "to_double 0.70"]
  by auto

text \<open>
  C2: the gap check comes first. Whenever a computed gap exceeds the threshold 0.10 the
  status is OVERFITTING, however low the test accuracy is: train accuracy 0.70 and test
  accuracy 0.55, below 0.60, give OVERFITTING, not UNDERFITTING. UNDERFITTING is returned
  exactly when no computed gap exceeds 0.10 and the test accuracy is below 0.60, with
  severity HIGH if the test accuracy is below 0.50 and MEDIUM otherwise.
\<close>

theorem detect_overfitting_gap_precedes:
  assumes "train_metrics ''accuracy'' = Some ta" and "test_metrics ''accuracy'' = Some ea"
    and "train_metrics ''f1'' = Some tf" and "test_metrics ''f1'' = Some ef"
  shows "\<exists>v. detect_overfitting train_metrics test_metrics (to_double 0.10) = Inr v
     \<and> accuracy_gap v = dsub ta ea \<and> f1_gap v = dsub tf ef
     \<and> (dgt (accuracy_gap v) (to_double 0.10) \<or> dgt (f1_gap v) (to_double 0.10)
          \<longrightarrow> fit_status v = ''OVERFITTING'')
     \<and> (fit_status v = ''UNDERFITTING'' \<longleftrightarrow>
          \<not> (dgt (accuracy_gap v) (to_double 0.10) \<or> dgt (f1_gap v) (to_double 0.10))
          \<and> dlt ea (to_double 0.60))
     \<and> (fit_status v = ''UNDERFITTING'' \<longrightarrow>
          fit_severity v = (if dlt ea (to_double 0.50) then ''HIGH'' else ''MEDIUM''))
     \<and> (ta = to_double 0.70 \<and> ea = to_double 0.55 \<longrightarrow>
          dlt ea (to_double 0.60)
          \<and> fit_status v = ''OVERFITTING'' \<and> fit_status v \<noteq> ''UNDERFITTING'')"
proof -
  have e: "dgt (dsub (to_double 0.70) (to_double 0.55)) (to_double 0.10)"
    by (simp only: gap_070_055 lit_010 dgt_def dlt.simps) simp
  have l: "dlt (to_double 0.55) (to_double 0.60)"
    by (simp only: lit_055 lit_060 dlt.simps) simp
  show ?thesis
    unfolding detect_overfitting_defined[OF assms]
    using e l by (auto simp: classify_fit_def)
qed

theorem detect_overfitting_gap_precedes_witness:
  "\<exists>v. detect_overfitting
          (map_of [(''accuracy'', to_double 0.70), (''f1'', to_double 0.70)])
          (map_of [(''accuracy'', to_double 0.55), (''f1'', to_double 0.55)]) (to_double 0.10) = Inr v
     \<and> dlt (to_double 0.55) (to_double 0.60)
     \<and> fit_status v = ''OVERFITTING'' \<and> fit_status v \<noteq> ''UNDERFITTING''"
  using detect_overfitting_gap_precedes
    [of "map_of [(''accuracy'', to_double 0.70), (''f1'', to_double 0.70)]" "to_double 0.70"
        "map_of [(''accuracy'', to_double 0.55), (''f1'', to_double 0.55)]" "to_double 0.55"
        "to_double 0.70" "to_double 0.55"]
  by auto

section \<open>Properties of the population stability index\<close>

lemma psi_term_nonneg:
  fixes c r :: real
  assumes "0 < c" "0 < r"
  shows "0 \<le> (c - r) * ln (c / r)"
proof (cases "r \<le> c")
  case True
  with assms have "1 \<le> c / r" by simp
  then have "0 \<le> ln (c / r)" by simp
  with True show ?thesis by simp
next
  case False
  with assms have "c / r \<le> 1" "0 < c / r" by simp_all
  then have "ln (c / r) \<le> 0" by simp
  with False show ?thesis by (simp add: mult_nonpos_nonpos)
qed

lemma psi_sum_nonneg:
  assumes "\<forall>c \<in> set cs. 0 < c" "\<forall>r \<in> set rs. 0 < r"
  shows "0 \<le> psi_sum cs rs"
  unfolding psi_sum_def
proof (rule sum_list_nonneg)
  fix t assume "t \<in> set (map (\<lambda>(c, r). (c - r) * ln (c / r)) (zip cs rs))"
  then obtain c r where "(c, r) \<in> set (zip cs rs)" and t: "t = (c - r) * ln (c / r)"
    by auto
  then have "c \<in> set cs" "r \<in> set rs" by (auto dest: set_zip_leftD set_zip_rightD)
  with assms t show "0 \<le> t" by (simp add: psi_term_nonneg)
qed

lemma psi_sum_same: "psi_sum ps ps = 0"
  unfolding psi_sum_def by (induction ps) simp_all

lemma proportions_pos:
  assumes "0 < bins"
  shows "\<forall>p \<in> set (proportions counts n bins). 0 < p"
proof -
  have "0 < real n + 0.0001 * real_of_int bins" using assms
    by (simp add: add_nonneg_pos)
  then show ?thesis
    unfolding proportions_def by (auto intro!: divide_pos_pos add_nonneg_pos)
qed

lemma linspace_length:
  "linspace a b n = Inr qs \<Longrightarrow> length qs = nat n"
  by (auto simp: linspace_def split: if_splits)

lemma percentile_length:
  "percentile r qs = Inr ps \<Longrightarrow> length ps = length qs"
  by (auto simp: percentile_def split: column.splits if_splits)

lemma unique_length: "length (unique ps) \<le> length ps"
  by (simp add: unique_def length_remdups_leq)

lemma breakpoints_bins:
  assumes "breakpoints r bins = Inr bps" "\<not> length bps < 3"
  shows "2 \<le> bins"
proof -
  from assms(1) obtain qs ps where q: "linspace 0 100 (bins + 1) = Inr qs"
    and p: "percentile r qs = Inr ps" and b: "bps = unique ps"
    by (auto simp: breakpoints_def split: sum.splits)
  have "length bps \<le> nat (bins + 1)"
    using unique_length[of ps] percentile_length[OF p] linspace_length[OF q] b
    by simp
  with assms(2) show ?thesis by linarith
qed

lemma calculate_psi_same: "calculate_psi r r bins = 0"
  unfolding calculate_psi_def calculate_psi_try_def
  by (auto simp: Let_def psi_sum_same split: sum.splits)

lemma calculate_psi_raise: "calculate_psi_try r c bins = Inl e \<Longrightarrow> calculate_psi r c bins = 0"
  by (simp add: calculate_psi_def)

lemma calculate_psi_degenerate:
  "breakpoints r bins = Inr bps \<Longrightarrow> length bps < 3 \<Longrightarrow> calculate_psi r c bins = 0"
  by (simp add: calculate_psi_def calculate_psi_try_def)

lemma breakpoints_empty: "\<exists>e. breakpoints (Numeric []) bins = Inl e"
  by (auto simp: breakpoints_def percentile_def linspace_def split: sum.splits)

lemma breakpoints_text: "\<exists>e. breakpoints (NonNumeric ss) bins = Inl e"
  by (auto simp: breakpoints_def percentile_def linspace_def split: sum.splits)

lemma calculate_psi_text: "calculate_psi (NonNumeric ss) c bins = 0"
  using breakpoints_text[of ss bins]
  by (auto simp: calculate_psi_def calculate_psi_try_def)

text \<open>
  C3: the index of a sample against itself is exactly zero, for every reference sample and
  bin count. For a non-degenerate reference sample, one with at least three distinct
  breakpoints, the zero is the computed sum and not a fallback: both histograms and both
  sample sizes coincide, so every bin contributes \<open>(p - p) * ln (p / p) = 0\<close>.
\<close>

theorem calculate_psi_identical:
  "calculate_psi reference reference bins = 0
   \<and> (breakpoints reference bins = Inr bps \<and> 3 \<le> length bps
        \<longrightarrow> calculate_psi_try reference reference bins = Inr 0)"
proof (intro conjI impI)
  show "calculate_psi reference reference bins = 0"
    by (rule calculate_psi_same)
next
  assume a: "breakpoints reference bins = Inr bps \<and> 3 \<le> length bps"
  show "calculate_psi_try reference reference bins = Inr 0"
  proof (cases reference)
    case (Numeric xs)
    with a show ?thesis
      by (simp add: calculate_psi_try_def histogram_def psi_sum_same)
  next
    case (NonNumeric ss)
    with a breakpoints_text[of ss bins] show ?thesis by auto
  qed
qed

theorem calculate_psi_identical_witness:
  "breakpoints (Numeric [3, 1, 2, 5, 4]) 10
     = Inr [1, 7/5, 9/5, 11/5, 13/5, 3, 17/5, 19/5, 21/5, 23/5, 5]
   \<and> calculate_psi (Numeric [3, 1, 2, 5, 4]) (Numeric [3, 1, 2, 5, 4]) 10 = 0
   \<and> calculate_psi_try (Numeric [3, 1, 2, 5, 4]) (Numeric [3, 1, 2, 5, 4]) 10 = Inr 0"
proof -
  have b: "breakpoints (Numeric [3, 1, 2, 5, 4]) 10
     = Inr [1, 7/5, 9/5, 11/5, 13/5, 3, 17/5, 19/5, 21/5, 23/5, 5]"
    by (simp add: breakpoints_def linspace_def percentile_def percentile_at_def unique_def upt_rec)
  from b calculate_psi_identical[of "Numeric [3, 1, 2, 5, 4]" 10
      "[1, 7/5, 9/5, 11/5, 13/5, 3, 17/5, 19/5, 21/5, 23/5, 5]"]
  show ?thesis by simp
qed

text \<open>
  C4: the index is never negative, for every reference sample, current sample and bin
  count. A computed sum has at least three breakpoints, hence at least two requested
  bins, so the smoothed proportions are positive and each bin contributes
  \<open>(c - r) * ln (c / r) \<ge> 0\<close>; the degenerate and the error branch return 0.
\<close>

theorem calculate_psi_nonnegative: "0 \<le> calculate_psi reference current bins"
proof (cases "calculate_psi_try reference current bins")
  case (Inl e)
  then show ?thesis by (simp add: calculate_psi_def)
next
  case (Inr v)
  have "0 \<le> v" using Inr
    unfolding calculate_psi_try_def
    by (auto simp: Let_def split: sum.splits if_splits
        intro!: psi_sum_nonneg proportions_pos dest!: breakpoints_bins)
  with Inr show ?thesis by (simp add: calculate_psi_def)
qed

theorem calculate_psi_nonnegative_witness:
  "0 \<le> calculate_psi (Numeric [3, 1, 2, 5, 4]) (Numeric [2, 2, 9, 4]) 10"
  by (rule calculate_psi_nonnegative)

text \<open>
  C5: \<open>calculate_psi\<close> always returns a number. When the body of its \<open>try\<close> block
  raises, the result is 0; when fewer than three distinct breakpoints remain, the result
  is 0; an empty reference sample makes the percentile computation raise, and the result
  is 0.
\<close>

theorem calculate_psi_fail_open:
  "(calculate_psi_try reference current bins = Inl e \<longrightarrow> calculate_psi reference current bins = 0)
   \<and> (breakpoints reference bins = Inr bps \<and> length bps < 3 \<longrightarrow>
        calculate_psi reference current bins = 0)
   \<and> (\<exists>e'. calculate_psi_try (Numeric []) current bins = Inl e')
   \<and> calculate_psi (Numeric []) current bins = 0"
  using breakpoints_empty[of bins]
  by (auto simp: calculate_psi_raise calculate_psi_degenerate calculate_psi_def calculate_psi_try_def)

theorem calculate_psi_fail_open_witness:
  "breakpoints (Numeric [7, 7, 7]) 10 = Inr [7]
   \<and> calculate_psi (Numeric [7, 7, 7]) (Numeric [1, 2]) 10 = 0
   \<and> calculate_psi_try (Numeric []) (Numeric [1, 2]) 10 = Inl IndexError
   \<and> calculate_psi (Numeric []) (Numeric [1, 2]) 10 = 0"
proof -
  have b: "breakpoints (Numeric [7, 7, 7]) 10 = Inr [7]"
    by (simp add: breakpoints_def linspace_def percentile_def percentile_at_def unique_def upt_rec)
  have t: "calculate_psi_try (Numeric []) (Numeric [1, 2]) 10 = Inl IndexError"
    by (simp add: calculate_psi_try_def breakpoints_def linspace_def percentile_def upt_rec)
  from b t calculate_psi_fail_open[of "Numeric [7, 7, 7]" "Numeric [1, 2]" 10 IndexError "[7]"]
    calculate_psi_fail_open[of "Numeric []" "Numeric [1, 2]" 10 IndexError "[]"]
  show ?thesis by simp
qed


section \<open>Properties of the feature drift detector\<close>

lemma getcol_present:
  "col \<in> set (columns df) \<Longrightarrow> \<exists>c. getcol df col = Inr c \<and> map_of df col = Some c"
  by (cases "map_of df col") (auto simp: getcol_def columns_def map_of_eq_None_iff)

lemma dict_set_fresh: "k \<notin> fst ` set d \<Longrightarrow> dict_set k v d = d @ [(k, v)]"
  by (induction d) auto

lemma mean_ok: "is_numeric_dtype r \<or> len r = 0 \<Longrightarrow> \<exists>m. mean r = Inr m"
  by (cases r) auto

lemma std_ok: "is_numeric_dtype r \<or> len r = 0 \<Longrightarrow> \<exists>m. std r = Inr m"
  by (cases r) auto

lemma feature_loop_ok:
  assumes "distinct cols" and "set cols \<inter> fst ` set results = {}"
    and "\<forall>col \<in> set cols. \<exists>c r. map_of cur col = Some c \<and> map_of ref col = Some r
            \<and> (is_numeric_dtype c \<longrightarrow> is_numeric_dtype r \<or> len r = 0)"
  shows "\<exists>results'.
      feature_loop ref cur th cols results (map fst (filter (\<lambda>(c, v). psi v \<ge> th) results))
        = Inr (results', map fst (filter (\<lambda>(c, v). psi v \<ge> th) results'))
      \<and> map fst results' = map fst results
           @ filter (\<lambda>col. case map_of cur col of Some c \<Rightarrow> is_numeric_dtype c | None \<Rightarrow> False) cols
      \<and> (\<forall>(col, v) \<in> set results'. (col, v) \<in> set results
            \<or> (\<exists>c r. map_of cur col = Some c \<and> map_of ref col = Some r
                  \<and> psi v = calculate_psi r c 10))"
  using assms
proof (induction cols arbitrary: results)
  case Nil
  then show ?case by auto
next
  case (Cons col cols)
  from Cons.prems(3) obtain c r where c: "map_of cur col = Some c" and r: "map_of ref col = Some r"
    and ok: "is_numeric_dtype c \<longrightarrow> is_numeric_dtype r \<or> len r = 0"
    by auto
  show ?case
  proof (cases "is_numeric_dtype c")
    case False
    from Cons.prems have "distinct cols" "set cols \<inter> fst ` set results = {}"
      "\<forall>col \<in> set cols. \<exists>c r. map_of cur col = Some c \<and> map_of ref col = Some r
            \<and> (is_numeric_dtype c \<longrightarrow> is_numeric_dtype r \<or> len r = 0)"
      by auto
    from Cons.IH[OF this] False c show ?thesis
      by (simp add: getcol_def)
  next
    case True
    with ok obtain rm rs where rm: "mean r = Inr rm" and rs: "std r = Inr rs"
      using mean_ok std_ok by blast
    from True obtain cm cs where cm: "mean c = Inr cm" and cs: "std c = Inr cs"
      using mean_ok std_ok by blast
    define p where "p = calculate_psi r c 10"
    define v where "v = \<lparr>psi = p,
        feature_status = (if p \<ge> th then ''SIGNIFICANT_DRIFT''
                         else if p \<ge> 0.1 then ''MODERATE_DRIFT'' else ''NO_DRIFT''),
        ref_mean = rm, curr_mean = cm, ref_std = rs, curr_std = cs\<rparr>"
    define results1 where "results1 = results @ [(col, v)]"
    from Cons.prems(2) have fresh: "col \<notin> fst ` set results" by auto
    have pv: "psi v = p" by (simp add: v_def)
    have step: "feature_loop ref cur th (col # cols) results
                  (map fst (filter (\<lambda>(c, v). psi v \<ge> th) results))
              = feature_loop ref cur th cols results1
                  (map fst (filter (\<lambda>(c, v). psi v \<ge> th) results1))"
      using c r True rm rs cm cs dict_set_fresh[OF fresh, of v]
      by (simp add: getcol_def Let_def p_def[symmetric] v_def[symmetric] results1_def pv)
    from Cons.prems have "distinct cols" "set cols \<inter> fst ` set results1 = {}"
      "\<forall>col \<in> set cols. \<exists>c r. map_of cur col = Some c \<and> map_of ref col = Some r
            \<and> (is_numeric_dtype c \<longrightarrow> is_numeric_dtype r \<or> len r = 0)"
      by (auto simp: results1_def)
    from Cons.IH[OF this] obtain results' where
      l: "feature_loop ref cur th cols results1
            (map fst (filter (\<lambda>(c, v). psi v \<ge> th) results1))
          = Inr (results', map fst (filter (\<lambda>(c, v). psi v \<ge> th) results'))"
      and m: "map fst results' = map fst results1
           @ filter (\<lambda>col. case map_of cur col of Some c \<Rightarrow> is_numeric_dtype c | None \<Rightarrow> False) cols"
      and q: "\<forall>(col, v) \<in> set results'. (col, v) \<in> set results1
            \<or> (\<exists>c r. map_of cur col = Some c \<and> map_of ref col = Some r
                  \<and> psi v = calculate_psi r c 10)"
      by blast
    have q': "\<forall>(col, v) \<in> set results'. (col, v) \<in> set results
            \<or> (\<exists>c r. map_of cur col = Some c \<and> map_of ref col = Some r
                  \<and> psi v = calculate_psi r c 10)"
      using q c r pv p_def by (fastforce simp: results1_def)
    from step l m q' c True show ?thesis
      by (simp add: results1_def)
  qed
qed


lemma common_cols_props:
  assumes "distinct (columns cur)"
  shows "distinct (common_cols ref cur)"
    and "\<forall>col \<in> set (common_cols ref cur). \<exists>c r. map_of cur col = Some c \<and> map_of ref col = Some r"
proof -
  show "distinct (common_cols ref cur)" using assms by (simp add: common_cols_def)
  show "\<forall>col \<in> set (common_cols ref cur). \<exists>c r. map_of cur col = Some c \<and> map_of ref col = Some r"
    using getcol_present[of _ cur] getcol_present[of _ ref]
    by (auto simp: common_cols_def)
qed

lemma feature_loop_text_reference:
  assumes "col \<in> set cols" and "map_of cur col = Some c" and "is_numeric_dtype c"
    and "map_of ref col = Some (NonNumeric ss)" and "ss \<noteq> []"
  shows "\<exists>e. feature_loop ref cur th cols results drifted = Inl e"
  using assms(1)
proof (induction cols arbitrary: results drifted)
  case Nil
  then show ?case by simp
next
  case (Cons col' cols)
  show ?case
  proof (cases "col' = col")
    case True
    with assms(2-5) show ?thesis by (simp add: getcol_def Let_def)
  next
    case False
    with Cons.prems have "col \<in> set cols" by simp
    from Cons.IH[OF this] show ?thesis
      by (simp add: Let_def split: sum.splits)
  qed
qed

text \<open>
  C6: non-numeric columns of the current frame are skipped and never make
  \<open>detect_feature_drift\<close> raise. For a current frame with distinct column labels, and
  a reference whose shared columns are numeric (or without rows) wherever the current
  column is numeric, the detector returns; the per-feature results are keyed by exactly
  the shared non-label columns that are numeric in the current frame, in column order;
  \<open>total_features\<close> is their number; each reported \<open>psi\<close> is \<open>calculate_psi\<close> of the
  two columns; \<open>drifted_features\<close> counts the analysed features with \<open>psi \<ge> 0.2\<close>;
  \<open>drift_percentage\<close> is \<open>drifted_features / total_features * 100\<close>, and 0 when nothing
  was analysed; \<open>overall_status\<close> is DRIFT_DETECTED if some analysed feature has
  \<open>psi \<ge> 0.2\<close> and NO_DRIFT otherwise.
\<close>

theorem detect_feature_drift_summary:
  assumes "distinct (columns current_data)"
    and "\<forall>col \<in> set (common_cols reference current_data). \<forall>c r.
           map_of current_data col = Some c \<and> is_numeric_dtype c \<and> map_of reference col = Some r
           \<longrightarrow> is_numeric_dtype r \<or> len r = 0"
  shows "\<exists>res. detect_feature_drift reference current_data 0.2 = Inr res
     \<and> map fst (fd_results res) =
         filter (\<lambda>col. case map_of current_data col of
                         Some c \<Rightarrow> is_numeric_dtype c | None \<Rightarrow> False)
                (common_cols reference current_data)
     \<and> total_features (fd_summary res) = length (fd_results res)
     \<and> (\<forall>(col, v) \<in> set (fd_results res).
           \<exists>c r. map_of current_data col = Some c \<and> map_of reference col = Some r
                 \<and> psi v = calculate_psi r c 10)
     \<and> drifted_feature_names (fd_summary res) =
         map fst (filter (\<lambda>(col, v). psi v \<ge> 0.2) (fd_results res))
     \<and> drifted_features (fd_summary res) =
         length (filter (\<lambda>(col, v). psi v \<ge> 0.2) (fd_results res))
     \<and> drift_percentage (fd_summary res) =
         (if total_features (fd_summary res) = 0 then 0
          else real (drifted_features (fd_summary res))
                 / real (total_features (fd_summary res)) * 100)
     \<and> (overall_status (fd_summary res) = ''DRIFT_DETECTED'' \<longleftrightarrow>
          (\<exists>(col, v) \<in> set (fd_results res). psi v \<ge> 0.2))
     \<and> (overall_status (fd_summary res) = ''NO_DRIFT'' \<longleftrightarrow>
          \<not> (\<exists>(col, v) \<in> set (fd_results res). psi v \<ge> 0.2))"
proof -
  let ?cols = "common_cols reference current_data"
  note cc = common_cols_props[OF assms(1), of reference]
  have h: "\<forall>col \<in> set ?cols. \<exists>c r. map_of current_data col = Some c \<and> map_of reference col = Some r
            \<and> (is_numeric_dtype c \<longrightarrow> is_numeric_dtype r \<or> len r = 0)"
    using cc(2) assms(2) by fastforce
  have "set ?cols \<inter> fst ` set ([] :: (string \<times> feature_verdict) list) = {}" by simp
  from feature_loop_ok[OF cc(1) this h, of "0.2"] obtain results where
    l: "feature_loop reference current_data 0.2 ?cols [] []
          = Inr (results, map fst (filter (\<lambda>(c, v). psi v \<ge> 0.2) results))"
    and m: "map fst results =
         filter (\<lambda>col. case map_of current_data col of
                         Some c \<Rightarrow> is_numeric_dtype c | None \<Rightarrow> False) ?cols"
    and q: "\<forall>(col, v) \<in> set results.
           \<exists>c r. map_of current_data col = Some c \<and> map_of reference col = Some r
                 \<and> psi v = calculate_psi r c 10"
    by auto
  have e: "filter (\<lambda>(c, v). psi v \<ge> 0.2) results \<noteq> [] \<longleftrightarrow>
             (\<exists>(col, v) \<in> set results. psi v \<ge> 0.2)"
    by (auto simp: filter_empty_conv)
  show ?thesis
    using l m q e by (simp add: detect_feature_drift_def)
qed

theorem detect_feature_drift_summary_witness:
  "\<exists>res. detect_feature_drift
      [(''age'', Numeric [30, 41, 25, 52]), (''stress'', Numeric [3, 7, 5, 4]),
       (''city'', NonNumeric [''Oslo'', ''Rome'', ''Oslo'', ''Bern'']),
       (''migraine_occurrence'', Numeric [1, 0, 0, 1])]
      [(''age'', Numeric [33, 45, 29]), (''stress'', NonNumeric [''low'', ''high'', ''low'']),
       (''city'', NonNumeric [''Rome'', ''Rome'', ''Bern'']), (''sleep'', Numeric [7, 6, 8]),
       (''migraine_occurrence'', Numeric [1, 1, 0])] 0.2 = Inr res
    \<and> map fst (fd_results res) = [''age'']
    \<and> total_features (fd_summary res) = 1"
proof -
  let ?ref = "[(''age'', Numeric [30, 41, 25, 52]), (''stress'', Numeric [3, 7, 5, 4]),
       (''city'', NonNumeric [''Oslo'', ''Rome'', ''Oslo'', ''Bern'']),
       (''migraine_occurrence'', Numeric [1, 0, 0, 1])]"
  let ?cur = "[(''age'', Numeric [33, 45, 29]), (''stress'', NonNumeric [''low'', ''high'', ''low'']),
       (''city'', NonNumeric [''Rome'', ''Rome'', ''Bern'']), (''sleep'', Numeric [7, 6, 8]),
       (''migraine_occurrence'', Numeric [1, 1, 0])]"
  have cc: "common_cols ?ref ?cur = [''age'', ''stress'', ''city'']"
    by (simp add: common_cols_def columns_def target_col_def)
  have d: "distinct (columns ?cur)" by (simp add: columns_def)
  have h: "\<forall>col \<in> set (common_cols ?ref ?cur). \<forall>c r.
           map_of ?cur col = Some c \<and> is_numeric_dtype c \<and> map_of ?ref col = Some r
           \<longrightarrow> is_numeric_dtype r \<or> len r = 0"
    unfolding cc by simp
  from detect_feature_drift_summary[OF d h] obtain res where
    "detect_feature_drift ?ref ?cur 0.2 = Inr res"
    "map fst (fd_results res) =
         filter (\<lambda>col. case map_of ?cur col of
                         Some c \<Rightarrow> is_numeric_dtype c | None \<Rightarrow> False)
                (common_cols ?ref ?cur)"
    "total_features (fd_summary res) = length (fd_results res)"
    by blast
  moreover from this(2) have m: "map fst (fd_results res) = [''age'']"
    unfolding cc by simp
  moreover from m have "length (fd_results res) = 1"
    by (metis length_map length_Cons list.size(3) One_nat_def)
  ultimately show ?thesis by auto
qed


text \<open>
  C10: the dtype filter of both loops looks at the current column only, and
  \<open>calculate_psi\<close> on a text reference column falls open to 0
  (\<open>calculate_psi_text\<close>). The column is nevertheless not reported: the next statement
  takes \<open>mean()\<close> of the text reference column outside any \<open>try\<close>, and the detector
  raises TypeError as soon as that column has rows (\<open>feature_loop_text_reference\<close> for
  every such frame; below for a reference whose \<open>age\<close> column is text while the current
  \<open>age\<close> column is numeric).
\<close>

theorem detect_feature_drift_text_reference_raises:
  "detect_feature_drift
      [(''age'', NonNumeric [''old'', ''young'', ''old'']), (''migraine_occurrence'', Numeric [1, 0, 0])]
      [(''age'', Numeric [30, 41]), (''migraine_occurrence'', Numeric [1, 0])] 0.2
    = Inl TypeError"
  by (simp add: detect_feature_drift_def common_cols_def columns_def target_col_def getcol_def
      calculate_psi_text Let_def)

section \<open>Properties of the target drift detector\<close>

lemma share_3_10: "ddiv (to_double 3) (to_double 10) = Finite (5404319552844595 / 2 ^ 54)"
proof -
  have "ddiv (to_double 3) (to_double 10) = to_double (3 / 10)"
    by (simp only: int_3 int_10 ddiv.simps) simp
  also have "\<dots> = Finite (5404319552844595 / 2 ^ 54)"
    by (rule to_double_eval[of "-2"]) (simp_all add: pow2_def rne_def Let_def)
  finally show ?thesis .
qed

lemma share_9_20: "ddiv (to_double 9) (to_double 20) = Finite (8106479329266893 / 2 ^ 54)"
proof -
  have "ddiv (to_double 9) (to_double 20) = to_double (9 / 20)"
    by (simp only: int_9 int_20 ddiv.simps) simp
  also have "\<dots> = Finite (8106479329266893 / 2 ^ 54)"
    by (rule to_double_eval[of "-2"]) (simp_all add: pow2_def rne_def Let_def)
  finally show ?thesis .
qed

lemma share_4_10: "ddiv (to_double 4) (to_double 10) = Finite (7205759403792794 / 2 ^ 54)"
proof -
  have "ddiv (to_double 4) (to_double 10) = to_double (4 / 10)"
    by (simp only: int_4 int_10 ddiv.simps) simp
  also have "\<dots> = Finite (7205759403792794 / 2 ^ 54)"
    by (rule to_double_eval[of "-2"]) (simp_all add: pow2_def rne_def Let_def)
  finally show ?thesis .
qed

lemma magnitude_030_045:
  "dabs (dsub (ddiv (to_double 3) (to_double 10)) (ddiv (to_double 9) (to_double 20)))
     = Finite (5404319552844596 / 2 ^ 55)"
proof -
  have "dsub (ddiv (to_double 3) (to_double 10)) (ddiv (to_double 9) (to_double 20))
      = to_double (5404319552844595 / 2 ^ 54 - 8106479329266893 / 2 ^ 54)"
    by (simp only: share_3_10 share_9_20 dsub.simps)
  also have "\<dots> = Finite (- (5404319552844596 / 2 ^ 55))"
    by (rule to_double_eval[of "-3"]) (simp_all add: pow2_def rne_def Let_def)
  finally show ?thesis by simp
qed

lemma positive_share:
  "dict_get (value_counts_normalize c) (Num 1) (Finite 0)
     = (if count_list (cells c) (Num 1) = 0 then Finite 0
        else ddiv (to_double (real (count_list (cells c) (Num 1)))) (to_double (real (len c))))"
  by (simp add: dict_get_def value_counts_normalize_def count_list_0_iff)

lemma detect_target_drift_present:
  assumes "map_of reference target_col = Some ref" and "map_of current_data target_col = Some cur"
  shows "detect_target_drift reference current_data =
     Inr (Some \<lparr>reference_distribution = value_counts_normalize ref,
                current_distribution = value_counts_normalize cur,
                drift_magnitude =
                  dabs (dsub (dict_get (value_counts_normalize ref) (Num 1) (Finite 0))
                             (dict_get (value_counts_normalize cur) (Num 1) (Finite 0))),
                target_status =
                  (if dgt (dabs (dsub (dict_get (value_counts_normalize ref) (Num 1) (Finite 0))
                                      (dict_get (value_counts_normalize cur) (Num 1) (Finite 0))))
                          (to_double 0.1)
                   then ''SIGNIFICANT_DRIFT'' else ''NO_DRIFT'')\<rparr>)"
proof -
  from assms have "target_col \<in> set (columns reference)" "target_col \<in> set (columns current_data)"
    by (auto simp: columns_def dest: map_of_SomeD intro: rev_image_eqI)
  with assms show ?thesis
    by (simp add: detect_target_drift_def getcol_def Let_def)
qed

lemma detect_target_drift_total: "\<exists>r. detect_target_drift reference current_data = Inr r"
proof (cases "target_col \<notin> set (columns current_data) \<or> target_col \<notin> set (columns reference)")
  case True
  then show ?thesis by (simp add: detect_target_drift_def)
next
  case False
  then obtain r c where "map_of reference target_col = Some r" "map_of current_data target_col = Some c"
    using getcol_present by blast
  from detect_target_drift_present[OF this] show ?thesis by blast
qed

lemma example_shares:
  "dict_get (value_counts_normalize (Numeric [1, 0, 0, 1, 0, 0, 0, 1, 0, 0])) (Num 1) (Finite 0)
     = ddiv (to_double 3) (to_double 10)"
  "dict_get (value_counts_normalize
       (Numeric [1, 0, 1, 0, 0, 1, 1, 0, 0, 1, 0, 1, 0, 0, 1, 0, 1, 0, 0, 1])) (Num 1) (Finite 0)
     = ddiv (to_double 9) (to_double 20)"
  by (simp_all add: positive_share)

lemma example_target_drift:
  "detect_target_drift
        [(''age'', Numeric [30, 41, 25, 52, 38, 47, 29, 33, 60, 44]),
         (''migraine_occurrence'', Numeric [1, 0, 0, 1, 0, 0, 0, 1, 0, 0])]
        [(''migraine_occurrence'',
            Numeric [1, 0, 1, 0, 0, 1, 1, 0, 0, 1, 0, 1, 0, 0, 1, 0, 1, 0, 0, 1])]
      = Inr (Some \<lparr>reference_distribution =
                     value_counts_normalize (Numeric [1, 0, 0, 1, 0, 0, 0, 1, 0, 0]),
                 current_distribution = value_counts_normalize
                     (Numeric [1, 0, 1, 0, 0, 1, 1, 0, 0, 1, 0, 1, 0, 0, 1, 0, 1, 0, 0, 1]),
                 drift_magnitude = Finite (5404319552844596 / 2 ^ 55),
                 target_status = ''SIGNIFICANT_DRIFT''\<rparr>)"
proof -
  let ?ref = "[(''age'', Numeric [30, 41, 25, 52, 38, 47, 29, 33, 60, 44]),
         (''migraine_occurrence'', Numeric [1, 0, 0, 1, 0, 0, 0, 1, 0, 0])]"
  let ?cur = "[(''migraine_occurrence'',
            Numeric [1, 0, 1, 0, 0, 1, 1, 0, 0, 1, 0, 1, 0, 0, 1, 0, 1, 0, 0, 1])]"
  have r: "map_of ?ref target_col = Some (Numeric [1, 0, 0, 1, 0, 0, 0, 1, 0, 0])"
    by (simp add: target_col_def)
  have c: "map_of ?cur target_col
      = Some (Numeric [1, 0, 1, 0, 0, 1, 1, 0, 0, 1, 0, 1, 0, 0, 1, 0, 1, 0, 0, 1])"
    by (simp add: target_col_def)
  have g: "dgt (Finite (5404319552844596 / 2 ^ 55)) (to_double 0.1)"
    by (simp only: lit_01 dgt_def dlt.simps) simp
  show ?thesis
    unfolding detect_target_drift_present[OF r c]
    by (simp only: example_shares magnitude_030_045 g if_True)
qed

text \<open>
  Rounding decides the verdict at the threshold: the shares 3/10 and 4/10 differ by
  0.10000000000000003 in doubles, above the double 0.1, which is SIGNIFICANT_DRIFT.
\<close>

lemma target_rounding_example:
  "dabs (dsub (ddiv (to_double 3) (to_double 10)) (ddiv (to_double 4) (to_double 10)))
     = Finite (7205759403792796 / 2 ^ 56)"
  "dgt (dabs (dsub (ddiv (to_double 3) (to_double 10)) (ddiv (to_double 4) (to_double 10))))
       (to_double 0.1)"
proof -
  have "dsub (ddiv (to_double 3) (to_double 10)) (ddiv (to_double 4) (to_double 10))
      = to_double (5404319552844595 / 2 ^ 54 - 7205759403792794 / 2 ^ 54)"
    by (simp only: share_3_10 share_4_10 dsub.simps)
  also have "\<dots> = Finite (- (7205759403792796 / 2 ^ 56))"
    by (rule to_double_eval[of "-4"]) (simp_all add: pow2_def rne_def Let_def)
  finally show m: "dabs (dsub (ddiv (to_double 3) (to_double 10)) (ddiv (to_double 4) (to_double 10)))
     = Finite (7205759403792796 / 2 ^ 56)"
    by simp
  show "dgt (dabs (dsub (ddiv (to_double 3) (to_double 10)) (ddiv (to_double 4) (to_double 10))))
       (to_double 0.1)"
    by (simp only: m lit_01 dgt_def dlt.simps) simp
qed

text \<open>
  C7, as stated, gives the drift magnitude 0.15 for a reference positive rate of 0.30 (3
  of 10 labels) against a current rate of 0.45 (9 of 20). The code returns
  0.15000000000000002, the double next above the double 0.15.
\<close>

theorem detect_target_drift_example_counterexample:
  "map_sum id (map_option drift_magnitude)
     (detect_target_drift
        [(''age'', Numeric [30, 41, 25, 52, 38, 47, 29, 33, 60, 44]),
         (''migraine_occurrence'', Numeric [1, 0, 0, 1, 0, 0, 0, 1, 0, 0])]
        [(''migraine_occurrence'',
            Numeric [1, 0, 1, 0, 0, 1, 1, 0, 0, 1, 0, 1, 0, 0, 1, 0, 1, 0, 0, 1])])
     = Inr (Some (Finite (5404319552844596 / 2 ^ 55)))
   \<and> to_double 0.15 = Finite (5404319552844595 / 2 ^ 55)
   \<and> Finite (5404319552844596 / 2 ^ 55) \<noteq> to_double 0.15"
proof -
  have "Finite (5404319552844596 / 2 ^ 55) \<noteq> to_double 0.15"
    by (simp only: lit_015) simp
  then show ?thesis
    by (simp only: example_target_drift lit_015) simp
qed

text \<open>
  C7 (amended): \<open>detect_target_drift\<close> never raises. If the label column
  \<open>migraine_occurrence\<close> is missing from either frame the result is the empty dict.
  Otherwise the drift magnitude is the absolute value of the double-precision difference
  of the two shares of the label value 1, each share the double quotient of the count by
  the number of rows (0 for a column without the value 1), and the status is
  SIGNIFICANT_DRIFT exactly when that magnitude is strictly greater than the double 0.1
  and NO_DRIFT otherwise. A reference positive rate of 0.30 against a current rate of 0.45
  gives the magnitude 0.15000000000000002 and SIGNIFICANT_DRIFT.
\<close>

theorem detect_target_drift_magnitude:
  "(target_col \<notin> set (columns current_data) \<or> target_col \<notin> set (columns reference)
      \<longrightarrow> detect_target_drift reference current_data = Inr None)
   \<and> (map_of reference target_col = Some ref \<and> map_of current_data target_col = Some cur
      \<longrightarrow> (\<exists>t. detect_target_drift reference current_data = Inr (Some t)
             \<and> drift_magnitude t =
                 dabs (dsub
                   (if count_list (cells ref) (Num 1) = 0 then Finite 0
                    else ddiv (to_double (real (count_list (cells ref) (Num 1))))
                              (to_double (real (len ref))))
                   (if count_list (cells cur) (Num 1) = 0 then Finite 0
                    else ddiv (to_double (real (count_list (cells cur) (Num 1))))
                              (to_double (real (len cur)))))
             \<and> (target_status t = ''SIGNIFICANT_DRIFT'' \<longleftrightarrow>
                  dgt (drift_magnitude t) (to_double 0.1))
             \<and> (target_status t = ''NO_DRIFT'' \<longleftrightarrow>
                  \<not> dgt (drift_magnitude t) (to_double 0.1))))
   \<and> (\<exists>r. detect_target_drift reference current_data = Inr r)"
proof (intro conjI impI)
  assume "target_col \<notin> set (columns current_data) \<or> target_col \<notin> set (columns reference)"
  then show "detect_target_drift reference current_data = Inr None"
    by (simp add: detect_target_drift_def)
next
  assume a: "map_of reference target_col = Some ref \<and> map_of current_data target_col = Some cur"
  then have "detect_target_drift reference current_data =
     Inr (Some \<lparr>reference_distribution = value_counts_normalize ref,
                current_distribution = value_counts_normalize cur,
                drift_magnitude =
                  dabs (dsub (dict_get (value_counts_normalize ref) (Num 1) (Finite 0))
                             (dict_get (value_counts_normalize cur) (Num 1) (Finite 0))),
                target_status =
                  (if dgt (dabs (dsub (dict_get (value_counts_normalize ref) (Num 1) (Finite 0))
                                      (dict_get (value_counts_normalize cur) (Num 1) (Finite 0))))
                          (to_double 0.1)
                   then ''SIGNIFICANT_DRIFT'' else ''NO_DRIFT'')\<rparr>)"
    by (simp add: detect_target_drift_present)
  then show "\<exists>t. detect_target_drift reference current_data = Inr (Some t)
             \<and> drift_magnitude t =
                 dabs (dsub
                   (if count_list (cells ref) (Num 1) = 0 then Finite 0
                    else ddiv (to_double (real (count_list (cells ref) (Num 1))))
                              (to_double (real (len ref))))
                   (if count_list (cells cur) (Num 1) = 0 then Finite 0
                    else ddiv (to_double (real (count_list (cells cur) (Num 1))))
                              (to_double (real (len cur)))))
             \<and> (target_status t = ''SIGNIFICANT_DRIFT'' \<longleftrightarrow>
                  dgt (drift_magnitude t) (to_double 0.1))
             \<and> (target_status t = ''NO_DRIFT'' \<longleftrightarrow>
                  \<not> dgt (drift_magnitude t) (to_double 0.1))"
    by (simp add: positive_share)
next
  show "\<exists>r. detect_target_drift reference current_data = Inr r"
    by (rule detect_target_drift_total)
qed

theorem detect_target_drift_magnitude_witness:
  "(\<exists>t. detect_target_drift
          [(''age'', Numeric [30, 41, 25, 52, 38, 47, 29, 33, 60, 44]),
           (''migraine_occurrence'', Numeric [1, 0, 0, 1, 0, 0, 0, 1, 0, 0])]
          [(''migraine_occurrence'',
              Numeric [1, 0, 1, 0, 0, 1, 1, 0, 0, 1, 0, 1, 0, 0, 1, 0, 1, 0, 0, 1])]
        = Inr (Some t)
      \<and> drift_magnitude t = Finite (5404319552844596 / 2 ^ 55)
      \<and> target_status t = ''SIGNIFICANT_DRIFT'')
   \<and> detect_target_drift [(''age'', Numeric [30, 41])]
        [(''migraine_occurrence'', Numeric [1, 0])] = Inr None"
proof -
  let ?ref = "[(''age'', Numeric [30, 41, 25, 52, 38, 47, 29, 33, 60, 44]),
           (''migraine_occurrence'', Numeric [1, 0, 0, 1, 0, 0, 0, 1, 0, 0])]"
  let ?cur = "[(''migraine_occurrence'',
              Numeric [1, 0, 1, 0, 0, 1, 1, 0, 0, 1, 0, 1, 0, 0, 1, 0, 1, 0, 0, 1])]"
  have r: "map_of ?ref target_col = Some (Numeric [1, 0, 0, 1, 0, 0, 0, 1, 0, 0])"
    by (simp add: target_col_def)
  have c: "map_of ?cur target_col
      = Some (Numeric [1, 0, 1, 0, 0, 1, 1, 0, 0, 1, 0, 1, 0, 0, 1, 0, 1, 0, 0, 1])"
    by (simp add: target_col_def)
  have g: "dgt (Finite (5404319552844596 / 2 ^ 55)) (to_double 0.1)"
    by (simp only: lit_01 dgt_def dlt.simps) simp
  from detect_target_drift_magnitude[of ?cur ?ref
        "Numeric [1, 0, 0, 1, 0, 0, 0, 1, 0, 0]"
        "Numeric [1, 0, 1, 0, 0, 1, 1, 0, 0, 1, 0, 1, 0, 0, 1, 0, 1, 0, 0, 1]"] r c
  obtain t where t: "detect_target_drift ?ref ?cur = Inr (Some t)"
    and m: "drift_magnitude t =
       dabs (dsub
         (if count_list (cells (Numeric [1, 0, 0, 1, 0, 0, 0, 1, 0, 0])) (Num 1) = 0 then Finite 0
          else ddiv (to_double (real (count_list (cells (Numeric [1, 0, 0, 1, 0, 0, 0, 1, 0, 0])) (Num 1))))
                    (to_double (real (len (Numeric [1, 0, 0, 1, 0, 0, 0, 1, 0, 0])))))
         (if count_list (cells (Numeric [1, 0, 1, 0, 0, 1, 1, 0, 0, 1, 0, 1, 0, 0, 1, 0, 1, 0, 0, 1]))
               (Num 1) = 0 then Finite 0
          else ddiv (to_double (real (count_list
                  (cells (Numeric [1, 0, 1, 0, 0, 1, 1, 0, 0, 1, 0, 1, 0, 0, 1, 0, 1, 0, 0, 1]))
                  (Num 1))))
                (to_double (real (len
                  (Numeric [1, 0, 1, 0, 0, 1, 1, 0, 0, 1, 0, 1, 0, 0, 1, 0, 1, 0, 0, 1]))))))"
    and s: "target_status t = ''SIGNIFICANT_DRIFT'' \<longleftrightarrow> dgt (drift_magnitude t) (to_double 0.1)"
    by blast
  from m have m': "drift_magnitude t = Finite (5404319552844596 / 2 ^ 55)"
    by (simp add: magnitude_030_045)
  with s g have "target_status t = ''SIGNIFICANT_DRIFT''" by simp
  moreover have "detect_target_drift [(''age'', Numeric [30, 41])]
        [(''migraine_occurrence'', Numeric [1, 0])] = Inr None"
    using detect_target_drift_magnitude
         [of "[(''migraine_occurrence'', Numeric [1, 0])]" "[(''age'', Numeric [30, 41])]"]
    by (simp add: target_col_def columns_def)
  ultimately show ?thesis using t m' by blast
qed

section \<open>Properties of the comprehensive report\<close>





text \<open>
  Rounding decides the verdict at the threshold: baseline 0.8 and accuracy 0.72 give a
  degradation of 10.000000000000009 percent, which is SIGNIFICANT_DEGRADATION.
\<close>

lemma performance_rounding_example:
  "detect_model_performance_drift (\<lambda>l p. Inr (to_double 0.72)) (\<lambda>l p. Inr (to_double 0.72))
       (\<lambda>df. Inr preds) df labels (to_double 0.8)
     = Inr \<lparr>baseline_accuracy = to_double 0.8, current_accuracy = to_double 0.72,
            current_f1 = to_double 0.72,
            accuracy_drop = Finite (5764607523034240 / 2 ^ 56),
            performance_degradation_pct = Finite (5629499534213125 / 2 ^ 49),
            performance_status = ''SIGNIFICANT_DEGRADATION''\<rparr>"
proof -
  have b: "to_double 0.8 = Finite (7205759403792794 / 2 ^ 53)"
    by (rule to_double_eval[of "-1"]) (simp_all add: pow2_def rne_def Let_def)
  have "dsub (to_double 0.8) (to_double 0.72)
      = to_double (7205759403792794 / 2 ^ 53 - 6485183463413514 / 2 ^ 53)"
    by (simp only: b lit_072 dsub.simps)
  also have "\<dots> = Finite (5764607523034240 / 2 ^ 56)"
    by (rule to_double_eval[of "-4"]) (simp_all add: pow2_def rne_def Let_def)
  finally have d: "dsub (to_double 0.8) (to_double 0.72) = Finite (5764607523034240 / 2 ^ 56)" .
  have nz: "to_double 0.8 \<noteq> Finite 0"
    by (simp only: b) simp
  have "ddiv (Finite (5764607523034240 / 2 ^ 56)) (to_double 0.8)
      = to_double (5764607523034240 / 2 ^ 56 / (7205759403792794 / 2 ^ 53))"
    by (simp only: b ddiv.simps) simp
  also have "\<dots> = Finite (7205759403792800 / 2 ^ 56)"
    by (rule to_double_eval[of "-4"]) (simp_all add: pow2_def rne_def Let_def)
  finally have q: "truediv (Finite (5764607523034240 / 2 ^ 56)) (to_double 0.8)
      = Inr (Finite (7205759403792800 / 2 ^ 56))"
    using nz by (simp add: truediv_def)
  have "dmul (Finite (7205759403792800 / 2 ^ 56)) (Finite 100)
      = to_double (7205759403792800 / 2 ^ 56 * 100)"
    by simp
  also have "\<dots> = Finite (5629499534213125 / 2 ^ 49)"
    by (rule to_double_eval[of 3]) (simp_all add: pow2_def rne_def Let_def)
  finally have m: "dmul (Finite (7205759403792800 / 2 ^ 56)) (Finite 100)
      = Finite (5629499534213125 / 2 ^ 49)" .
  have g: "dgt (Finite (5629499534213125 / 2 ^ 49)) (Finite 10)"
    by (simp add: dgt_def)
  show ?thesis
    unfolding detect_model_performance_drift_def
    by (simp only: sum.case d q m g Let_def if_True)
qed







end
